theory Spec2Isabelle
  imports Complex_Main "HOL-Library.Sublist"
begin

section \<open>The JNI bridge \<open>llama_jni.cpp\<close>: data model\<close>

text \<open>
  The file keeps four globals (\<open>g_model\<close>, \<open>g_context\<close>, \<open>g_batch\<close>, \<open>g_sampler\<close>; a fifth,
  \<open>g_grammar\<close>, is declared and never read or written) and calls the inference library
  through its C interface. Native pointers are natural numbers, \<open>0\<close> the null pointer.
  Token ids, positions and counters are 32-bit signed in the source; they are integers
  here, and no operation of the file can take them out of the 32-bit range
  (\<open>n_generated\<close> stays below \<open>maxTokens\<close>, positions below the batch capacity).
\<close>

type_synonym ptr = nat
type_synonym llama_token = int

text \<open>
  Faults: ways in which a call does not return. The library asserts that a batch has room
  (\<open>GGML_ASSERT\<close> in \<open>common_batch_add\<close>, which aborts); the other three are undefined
  behaviour of C++ (a write before the start of an array, the use of a null sampler, the
  use or release of a context that was already released), recorded as values so that a
  run that commits one is visible as such.
\<close>

datatype fault = BatchSizeExceeded | OutOfBoundsWrite | NullSampler | UseAfterFree

subsection \<open>The batch buffer\<close>

text \<open>
  \<open>llama_batch\<close> is a count \<open>n_tokens\<close> and parallel arrays \<open>token\<close>, \<open>pos\<close>, \<open>seq_id\<close>,
  \<open>logits\<close>, allocated by \<open>llama_batch_init\<close> with room for \<open>n_alloc\<close> tokens. Only the
  first \<open>n_tokens\<close> slots are ever read, so the arrays are kept as the list of the filled
  slots, and \<open>n_tokens\<close> is its length. The value-initialised \<open>g_batch = {}\<close> has no arrays
  and no room.
\<close>

record batch_entry =
  token :: llama_token
  pos :: int
  seq_id :: "int list"
  logits :: bool

record llama_batch =
  n_alloc :: nat
  entries :: "batch_entry list"

definition n_tokens :: "llama_batch \<Rightarrow> int" where
  "n_tokens b = int (length (entries b))"

definition empty_batch :: llama_batch where
  "empty_batch = \<lparr>n_alloc = 0, entries = []\<rparr>"

definition llama_batch_init :: "nat \<Rightarrow> llama_batch" where
  "llama_batch_init n = \<lparr>n_alloc = n, entries = []\<rparr>"

text \<open>
  Modelled from the spec: \<open>common_batch_clear\<close> and \<open>common_batch_add\<close> of the included
  \<open>common.h\<close>, which is not under src/. The spec's batch buffer holds up to N pending
  (token id, position, sequence-id, emit-logits) tuples; clearing empties it, adding
  appends one tuple at index \<open>n_tokens\<close>, and a buffer with no free slot rejects the
  addition (the library's assertion).
\<close>

definition common_batch_clear :: "llama_batch \<Rightarrow> llama_batch" where
  "common_batch_clear b = b\<lparr>entries := []\<rparr>"

definition common_batch_add ::
  "llama_batch \<Rightarrow> llama_token \<Rightarrow> int \<Rightarrow> int list \<Rightarrow> bool \<Rightarrow> fault + llama_batch" where
  "common_batch_add b tid p seq_ids lg =
     (if length (entries b) < n_alloc b
      then Inr (b\<lparr>entries := entries b @ [\<lparr>token = tid, pos = p, seq_id = seq_ids, logits = lg\<rparr>]\<rparr>)
      else Inl BatchSizeExceeded)"

text \<open>
  The prompt loop of \<open>nativeGenerate\<close>:
  \<^verbatim>\<open>for (size_t i = 0; i < tokens.size(); i++) common_batch_add(g_batch, tokens[i], i, { 0 }, false);\<close>
  The batch is not cleared first; \<open>i\<close> counts from the start of \<open>tokens\<close>.
\<close>

fun add_prompt :: "llama_batch \<Rightarrow> llama_token list \<Rightarrow> nat \<Rightarrow> fault + llama_batch" where
  "add_prompt b [] i = Inr b"
| "add_prompt b (t # ts) i =
     (case common_batch_add b t (int i) [0] False of
        Inl f \<Rightarrow> Inl f
      | Inr b' \<Rightarrow> add_prompt b' ts (Suc i))"

text \<open>
  \<^verbatim>\<open>g_batch.logits[g_batch.n_tokens - 1] = true;\<close>
  With \<open>n_tokens = 0\<close> the index is \<open>-1\<close>: a write before the array.
\<close>

definition set_last_logits :: "llama_batch \<Rightarrow> fault + llama_batch" where
  "set_last_logits b =
     (if n_tokens b - 1 < 0 then Inl OutOfBoundsWrite
      else Inr (b\<lparr>entries := (entries b)[nat (n_tokens b - 1) :=
                    (entries b ! nat (n_tokens b - 1))\<lparr>logits := True\<rparr>]\<rparr>))"

subsection \<open>The inference library\<close>

text \<open>
  The functions of \<open>llama.h\<close>, \<open>common.h\<close> and \<open>sampling.h\<close> that the file calls are
  parameters: a record of functions over an opaque library state \<open>'e\<close> (the attention cache
  of every context, the history and random source of every sampler). Each function takes
  the handles the source passes to it. \<open>llama_token_to_piece\<close> gives the bytes it wrote
  into the caller's buffer, whose number is its return value; a return value that is not
  positive (no text, or more text than the 255 bytes offered) is the empty list, since
  the source treats every \<open>n_chars \<le> 0\<close> alike.
\<close>

record context_params =
  n_ctx :: int
  n_batch :: int
  n_ubatch :: int
  n_threads :: int
  n_threads_batch :: int

record sampling_params =
  temp :: real
  top_p :: real
  top_k :: int

record 'e engine =
  llama_load_model_from_file :: "'e \<Rightarrow> string \<Rightarrow> int \<Rightarrow> ptr \<times> 'e"
  llama_init_from_model :: "'e \<Rightarrow> ptr \<Rightarrow> context_params \<Rightarrow> ptr \<times> 'e"
  common_sampler_init :: "'e \<Rightarrow> ptr \<Rightarrow> sampling_params \<Rightarrow> ptr \<times> 'e"
  common_tokenize :: "ptr \<Rightarrow> string \<Rightarrow> bool \<Rightarrow> llama_token list"
  common_sampler_reset :: "'e \<Rightarrow> ptr \<Rightarrow> 'e"
  llama_decode :: "'e \<Rightarrow> ptr \<Rightarrow> batch_entry list \<Rightarrow> int \<times> 'e"
  common_sampler_sample :: "'e \<Rightarrow> ptr \<Rightarrow> ptr \<Rightarrow> int \<Rightarrow> llama_token \<times> 'e"
  common_sampler_accept :: "'e \<Rightarrow> ptr \<Rightarrow> llama_token \<Rightarrow> bool \<Rightarrow> 'e"
  llama_token_to_piece :: "ptr \<Rightarrow> llama_token \<Rightarrow> string"
  llama_token_eos :: "ptr \<Rightarrow> llama_token"

definition DEFAULT_N_THREADS :: int where "DEFAULT_N_THREADS = 4"
definition DEFAULT_N_BATCH :: int where "DEFAULT_N_BATCH = 512"

subsection \<open>JNI values\<close>

text \<open>
  A \<open>jstring\<close> argument is the byte string \<open>GetStringUTFChars\<close> yields, a nullable one an
  option. \<open>NewStringUTF\<close> takes a pointer to a zero-terminated string: it reads the bytes
  up to the first zero byte. It is applied to \<open>token_str\<close>, a zero-filled buffer of 256
  bytes holding the piece, and to \<open>generated.c_str()\<close>, the accumulated bytes followed by
  a zero byte; in both cases it yields the bytes before the first zero byte of the
  content. The decoding of modified UTF-8 into UTF-16 is not modelled: a Java string is
  identified with the bytes it was made from. A callback object is the list of the
  methods its class has; \<open>GetMethodID\<close> yields a method id or null.
\<close>

definition NewStringUTF :: "string \<Rightarrow> string" where
  "NewStringUTF s = takeWhile (\<lambda>c. c \<noteq> CHR 0x00) s"

datatype jobject = JObject (methods: "string list")

definition GetMethodID :: "jobject \<Rightarrow> string \<Rightarrow> bool" where
  "GetMethodID obj name = (name \<in> set (methods obj))"

subsection \<open>The globals\<close>

text \<open>
  The four globals and the library state, with two ghost fields: \<open>live_ctx\<close>, the contexts
  that \<open>llama_init_from_model\<close> returned and \<open>llama_free\<close> has not yet released, and
  \<open>released\<close>, the releases made so far in the order they were made.
\<close>

datatype resource = Context ptr | Sampler ptr | BatchBuffer

record 'e session =
  g_model :: ptr
  g_context :: ptr
  g_batch :: llama_batch
  g_sampler :: ptr
  eng :: 'e
  live_ctx :: "ptr list"
  released :: "resource list"

definition initial_session :: "'e \<Rightarrow> 'e session" where
  "initial_session e = \<lparr>g_model = 0, g_context = 0, g_batch = empty_batch, g_sampler = 0,
     eng = e, live_ctx = [], released = []\<rparr>"

section \<open>The operations\<close>

subsection \<open>\<open>nativeLoadModel\<close>, \<open>nativeInitContext\<close>, \<open>nativeFreeContext\<close>\<close>

definition nativeLoadModel ::
  "'e engine \<Rightarrow> 'e session \<Rightarrow> string \<Rightarrow> int \<Rightarrow> int \<Rightarrow> ptr \<times> 'e session" where
  "nativeLoadModel E S modelPath nCtx nGpuLayers =
     (let (model, e1) = llama_load_model_from_file E (eng S) modelPath nGpuLayers
      in if model = 0 then (0, S\<lparr>eng := e1\<rparr>)
         else (model, S\<lparr>eng := e1, g_model := model\<rparr>))"

definition nativeInitContext ::
  "'e engine \<Rightarrow> 'e session \<Rightarrow> ptr \<Rightarrow> int \<Rightarrow> int \<Rightarrow> real \<Rightarrow> ptr \<times> 'e session" where
  "nativeInitContext E S modelPtr nCtx nThreads temperature =
     (if modelPtr = 0 then (0, S)
      else
        let nt = (if nThreads > 0 then nThreads else DEFAULT_N_THREADS);
            ctx_params = \<lparr>n_ctx = nCtx, n_batch = DEFAULT_N_BATCH, n_ubatch = DEFAULT_N_BATCH,
                          n_threads = nt, n_threads_batch = nt\<rparr>;
            (ctx, e1) = llama_init_from_model E (eng S) modelPtr ctx_params
        in if ctx = 0 then (0, S\<lparr>eng := e1\<rparr>)
           else
             let sparams = \<lparr>temp = temperature, top_p = 95 / 100, top_k = 40\<rparr>;
                 (smpl, e2) = common_sampler_init E e1 modelPtr sparams;
                 S1 = S\<lparr>eng := e2, g_sampler := smpl\<rparr>
             in if smpl = 0
                then (0, S1\<lparr>released := released S1 @ [Context ctx]\<rparr>)
                else (ctx,
                      S1\<lparr>g_batch := llama_batch_init (nat DEFAULT_N_BATCH),
                         g_context := ctx,
                         live_ctx := ctx # live_ctx S1\<rparr>))"

text \<open>
  \<open>nativeFreeContext\<close> releases the context its argument names whenever the argument is
  not null, whatever \<open>g_context\<close> holds; the sampler when \<open>g_sampler\<close> is not null; the batch
  when \<open>g_batch.n_tokens > 0\<close>. Releasing a context that is not live is the fault.
\<close>

definition nativeFreeContext :: "'e session \<Rightarrow> ptr \<Rightarrow> fault + 'e session" where
  "nativeFreeContext S contextPtr =
     (if contextPtr \<noteq> 0 \<and> contextPtr \<notin> set (live_ctx S) then Inl UseAfterFree
      else
        let S1 = (if contextPtr \<noteq> 0
                  then S\<lparr>live_ctx := removeAll contextPtr (live_ctx S),
                         released := released S @ [Context contextPtr]\<rparr>
                  else S);
            S2 = (if g_sampler S1 \<noteq> 0
                  then S1\<lparr>released := released S1 @ [Sampler (g_sampler S1)], g_sampler := 0\<rparr>
                  else S1);
            S3 = (if n_tokens (g_batch S2) > 0
                  then S2\<lparr>released := released S2 @ [BatchBuffer], g_batch := empty_batch\<rparr>
                  else S2)
        in Inr (S3\<lparr>g_context := 0\<rparr>))"

subsection \<open>\<open>nativeGenerate\<close>\<close>

text \<open>
  The locals of the generation loop, with the global batch and the library state it
  works on, and two ghost fields: \<open>sink\<close>, the strings passed to the callback's
  \<open>onToken\<close> in call order, and \<open>decoded\<close>, the batches passed to \<open>llama_decode\<close> in call
  order.
\<close>

record 'e gen_state =
  batch :: llama_batch
  lib :: 'e
  generated :: string
  n_generated :: int
  sink :: "string list"
  decoded :: "batch_entry list list"

text \<open>
  How an iteration ends: it falls through to the loop test, it leaves the loop by one of
  the two \<open>break\<close> statements (told apart as the source's log lines tell them apart:
  \<open>"EOS token reached"\<close>, \<open>"Failed to decode generation"\<close>), or the process aborts.
\<close>

datatype stop = EosReached | DecodeFailed

datatype 'a flow = Continue 'a | Break stop 'a | Abort fault 'a

text \<open>One iteration of \<open>while (n_generated < maxTokens)\<close>, entered with the test true.\<close>

definition loop_body ::
  "'e engine \<Rightarrow> ptr \<Rightarrow> ptr \<Rightarrow> ptr \<Rightarrow> bool \<Rightarrow> 'e gen_state \<Rightarrow> 'e gen_state flow" where
  "loop_body E model smpl ctx onTokenMethod st =
     (let (tok, e1) = common_sampler_sample E (lib st) smpl ctx (n_tokens (batch st) - 1);
          e2 = common_sampler_accept E e1 smpl tok True;
          token_str = llama_token_to_piece E model tok;
          n_chars = int (length token_str);
          st1 = (if n_chars > 0
                 then st\<lparr>generated := generated st @ token_str,
                         sink := (if onTokenMethod then sink st @ [NewStringUTF token_str]
                                  else sink st)\<rparr>
                 else st);
          st2 = st1\<lparr>lib := e2, n_generated := n_generated st + 1\<rparr>
      in if tok = llama_token_eos E model then Break EosReached st2
         else
           let cleared = common_batch_clear (batch st2)
           in case common_batch_add cleared tok (n_tokens cleared) [0] True of
                Inl f \<Rightarrow> Abort f st2
              | Inr b \<Rightarrow>
                  let (rc, e3) = llama_decode E e2 ctx (entries b);
                      st3 = st2\<lparr>batch := b, lib := e3, decoded := decoded st2 @ [entries b]\<rparr>
                  in if rc \<noteq> 0 then Break DecodeFailed st3 else Continue st3)"

text \<open>
  The loop. Every iteration that falls through has incremented \<open>n_generated\<close>, so the
  distance to \<open>maxTokens\<close> decreases: the loop terminates for every library.
\<close>

function gen_loop ::
  "'e engine \<Rightarrow> ptr \<Rightarrow> ptr \<Rightarrow> ptr \<Rightarrow> bool \<Rightarrow> int \<Rightarrow> 'e gen_state \<Rightarrow> fault option \<times> 'e gen_state"
  where
  "gen_loop E model smpl ctx cb maxTokens st =
     (if n_generated st < maxTokens
      then (case loop_body E model smpl ctx cb st of
              Continue st' \<Rightarrow> gen_loop E model smpl ctx cb maxTokens st'
            | Break why st' \<Rightarrow> (None, st')
            | Abort f st' \<Rightarrow> (Some f, st'))
      else (None, st))"
  by pat_completeness auto
termination
  by (relation "measure (\<lambda>(E, model, smpl, ctx, cb, maxTokens, st). nat (maxTokens - n_generated st))")
     (auto simp: loop_body_def Let_def split: prod.splits if_splits sum.splits)

declare gen_loop.simps [simp del]

text \<open>
  Notions for stating properties of the loop: the state an iteration ends in, the token an
  iteration samples, and the state at the loop test after \<open>k\<close> iterations that all fell
  through (\<open>None\<close> when the loop ended earlier).
\<close>

fun flow_state :: "'a flow \<Rightarrow> 'a" where
  "flow_state (Continue x) = x"
| "flow_state (Break w x) = x"
| "flow_state (Abort f x) = x"

definition sampled :: "'e engine \<Rightarrow> ptr \<Rightarrow> ptr \<Rightarrow> 'e gen_state \<Rightarrow> llama_token" where
  "sampled E smpl ctx st =
     fst (common_sampler_sample E (lib st) smpl ctx (n_tokens (batch st) - 1))"

fun iterate ::
  "'e engine \<Rightarrow> ptr \<Rightarrow> ptr \<Rightarrow> ptr \<Rightarrow> bool \<Rightarrow> int \<Rightarrow> nat \<Rightarrow> 'e gen_state \<Rightarrow> 'e gen_state option"
  where
  "iterate E model smpl ctx cb maxTokens 0 st = Some st"
| "iterate E model smpl ctx cb maxTokens (Suc k) st =
     (if n_generated st < maxTokens
      then (case loop_body E model smpl ctx cb st of
              Continue st' \<Rightarrow> iterate E model smpl ctx cb maxTokens k st'
            | Break w st' \<Rightarrow> None
            | Abort f st' \<Rightarrow> None)
      else None)"

text \<open>
  What a call of \<open>nativeGenerate\<close> leaves behind: the string it returns or the fault that
  ended it, the globals, the strings the callback received, the batches the library was
  asked to evaluate, and the number of iterations of the generation loop (the final
  \<open>n_generated\<close>, which the source logs).
\<close>

record 'e gen_result =
  ret :: "fault + string"
  after :: "'e session"
  delivered :: "string list"
  evaluated :: "batch_entry list list"
  steps :: int

text \<open>
  The prompt fill: the \<open>for\<close> loop over the prompt's tokens, then the flag of the last
  slot.
\<close>

definition prompt_fill :: "llama_batch \<Rightarrow> llama_token list \<Rightarrow> fault + llama_batch" where
  "prompt_fill b tokens =
     (case add_prompt b tokens 0 of
        Inl f \<Rightarrow> Inl f
      | Inr b1 \<Rightarrow> set_last_logits b1)"

text \<open>
  From the tokenisation to the first \<open>llama_decode\<close>: either the call ends there (a fault,
  or the empty string when the library rejects the prompt), or the loop is entered with
  its locals initialised.
\<close>

definition prompt_phase ::
  "'e engine \<Rightarrow> 'e session \<Rightarrow> ptr \<Rightarrow> string \<Rightarrow> 'e gen_result + 'e gen_state" where
  "prompt_phase E S contextPtr prompt =
     (let tokens = common_tokenize E (g_model S) prompt True
      in if g_sampler S = 0
         then Inl \<lparr>ret = Inl NullSampler, after = S, delivered = [], evaluated = [], steps = 0\<rparr>
         else
           let e1 = common_sampler_reset E (eng S) (g_sampler S)
           in case prompt_fill (g_batch S) tokens of
                Inl f \<Rightarrow> Inl \<lparr>ret = Inl f, after = S\<lparr>eng := e1\<rparr>, delivered = [], evaluated = [], steps = 0\<rparr>
              | Inr b \<Rightarrow>
                  if contextPtr \<notin> set (live_ctx S)
                  then Inl \<lparr>ret = Inl UseAfterFree, after = S\<lparr>eng := e1, g_batch := b\<rparr>,
                            delivered = [], evaluated = [], steps = 0\<rparr>
                  else
                    let (rc, e2) = llama_decode E e1 contextPtr (entries b)
                    in if rc \<noteq> 0
                       then Inl \<lparr>ret = Inr (NewStringUTF []),
                                 after = S\<lparr>eng := e2, g_batch := b\<rparr>,
                                 delivered = [], evaluated = [entries b], steps = 0\<rparr>
                       else Inr \<lparr>batch = b, lib = e2, generated = [], n_generated = 0,
                                 sink = [], decoded = [entries b]\<rparr>)"

text \<open>\<^verbatim>\<open>return env->NewStringUTF(generated.c_str());\<close> after the loop.\<close>

definition finish :: "'e session \<Rightarrow> fault option \<times> 'e gen_state \<Rightarrow> 'e gen_result" where
  "finish S r =
     (case r of (f, st) \<Rightarrow>
        \<lparr>ret = (case f of Some x \<Rightarrow> Inl x | None \<Rightarrow> Inr (NewStringUTF (generated st))),
         after = S\<lparr>eng := lib st, g_batch := batch st\<rparr>,
         delivered = sink st,
         evaluated = decoded st,
         steps = n_generated st\<rparr>)"

text \<open>
  \<open>nativeGenerate(contextPtr, prompt, maxTokens, temperature, grammar, callback)\<close>. The
  arguments \<open>temperature\<close> and \<open>grammar\<close> occur nowhere in the body.
\<close>

definition nativeGenerate ::
  "'e engine \<Rightarrow> 'e session \<Rightarrow> ptr \<Rightarrow> string \<Rightarrow> int \<Rightarrow> real \<Rightarrow> string option \<Rightarrow> jobject
     \<Rightarrow> 'e gen_result" where
  "nativeGenerate E S contextPtr prompt maxTokens temperature grammar callback =
     (if contextPtr = 0 \<or> g_model S = 0
      then \<lparr>ret = Inr (NewStringUTF []), after = S, delivered = [], evaluated = [], steps = 0\<rparr>
      else
        let onTokenMethod = GetMethodID callback ''onToken''
        in case prompt_phase E S contextPtr prompt of
             Inl r \<Rightarrow> r
           | Inr st0 \<Rightarrow>
               finish S (gen_loop E (g_model S) (g_sampler S) contextPtr onTokenMethod
                           maxTokens st0))"

text \<open>
  The batch the spec describes after the prompt fill: token \<open>T[i]\<close> at position \<open>i\<close>,
  sequence 0, the flag set on the last entry only. It is written from the spec's words,
  to be compared with what \<open>prompt_fill\<close> builds.
\<close>

definition prompt_entries :: "llama_token list \<Rightarrow> batch_entry list" where
  "prompt_entries T =
     map (\<lambda>i. \<lparr>token = T ! i, pos = int i, seq_id = [0], logits = (Suc i = length T)\<rparr>)
         [0..<length T]"

subsection \<open>A small library to run the code on\<close>

text \<open>
  A deterministic stand-in for the library, used only to evaluate the definitions at
  concrete inputs. Its state counts the calls of \<open>llama_decode\<close>. The tokenizer prefixes
  the markers \<open>bos\<close> and maps each byte of the text to its code; the sampler emits the
  tokens of \<open>script\<close> one per evaluation and then end-of-sequence (token 2);
  \<open>llama_decode\<close> rejects the batch of call number \<open>fail_at\<close>; the vocabulary is an
  association list.
\<close>

definition toy_engine ::
  "llama_token list \<Rightarrow> llama_token list \<Rightarrow> (llama_token \<times> string) list \<Rightarrow> nat \<Rightarrow> nat engine"
  where
  "toy_engine bos script vocab fail_at =
     \<lparr>llama_load_model_from_file = (\<lambda>e path ngl. (1, e)),
      llama_init_from_model = (\<lambda>e m cp. (2, e)),
      common_sampler_init = (\<lambda>e m sp. (3, e)),
      common_tokenize = (\<lambda>m text add_special.
         (if add_special then bos else []) @ map (\<lambda>c. int (of_char c)) text),
      common_sampler_reset = (\<lambda>e s. e),
      llama_decode = (\<lambda>e c b. (if e = fail_at then 1 else 0, Suc e)),
      common_sampler_sample = (\<lambda>e s c idx.
         (if 0 < e \<and> e - 1 < length script then script ! (e - 1) else 2, e)),
      common_sampler_accept = (\<lambda>e s t g. e),
      llama_token_to_piece = (\<lambda>m t. case map_of vocab t of Some p \<Rightarrow> p | None \<Rightarrow> []),
      llama_token_eos = (\<lambda>m. 2)\<rparr>"

text \<open>A session as \<open>nativeLoadModel\<close> and \<open>nativeInitContext\<close> leave it.\<close>

definition started :: "nat engine \<Rightarrow> nat session" where
  "started E =
     (let (m, S1) = nativeLoadModel E (initial_session 0) ''model.gguf'' 2048 0
      in snd (nativeInitContext E S1 m 2048 4 (7 / 10)))"

text \<open>
  Four instances: one that runs to end-of-sequence, whose vocabulary gives the
  end-of-sequence token a text; one whose third evaluation fails; one whose tokenizer adds
  no begin marker, so that the empty prompt has no tokens; one with a byte-fallback
  vocabulary, where token 3 is the byte \<open>0x00\<close>.
\<close>

definition demo_engine :: "nat engine" where
  "demo_engine = toy_engine [1] [10, 11] [(10, ''a''), (11, ''bc''), (2, ''</s>'')] 99"

definition failing_engine :: "nat engine" where
  "failing_engine = toy_engine [1] [10, 11, 10] [(10, ''a''), (11, ''bc'')] 2"

definition no_bos_engine :: "nat engine" where
  "no_bos_engine = toy_engine [] [10, 11] [(10, ''a''), (11, ''bc'')] 99"

definition byte_engine :: "nat engine" where
  "byte_engine = toy_engine [1] [3, 11] [(3, [CHR 0x00]), (11, ''4'')] 99"

text \<open>
  Three more with a zero byte among the pieces: one whose fourth evaluation fails after
  the tokens \<open>a\<close>, \<open>0x00\<close>, \<open>bc\<close>; one that reaches end-of-sequence after \<open>a\<close>, \<open>0x00\<close>;
  one whose end-of-sequence token has the text \<open>0x00\<close>, \<open>x\<close>.
\<close>

definition zero_byte_failing_engine :: "nat engine" where
  "zero_byte_failing_engine =
     toy_engine [1] [10, 3, 11] [(10, ''a''), (3, [CHR 0x00]), (11, ''bc'')] 3"

definition zero_byte_eos_engine :: "nat engine" where
  "zero_byte_eos_engine =
     toy_engine [1] [10, 3] [(10, ''a''), (3, [CHR 0x00]), (2, ''</s>'')] 99"

definition zero_eos_piece_engine :: "nat engine" where
  "zero_eos_piece_engine = toy_engine [1] [10] [(10, ''a''), (2, [CHR 0x00, CHR ''x''])] 99"

definition sink_object :: jobject where
  "sink_object = JObject [''onToken'']"

text \<open>A batch entry of sequence 0, as every entry the file makes is.\<close>

definition entry :: "llama_token \<Rightarrow> int \<Rightarrow> bool \<Rightarrow> batch_entry" where
  "entry t p lg = \<lparr>token = t, pos = p, seq_id = [0], logits = lg\<rparr>"

section \<open>Properties of the definitions\<close>

subsection \<open>One iteration\<close>

text \<open>
  Whatever way an iteration ends, it has counted one token, appended the piece of the
  sampled token to \<open>generated\<close>, and passed the piece to the callback if the piece is not
  empty and the callback has the method.
\<close>

lemma loop_body_n_generated:
  "n_generated (flow_state (loop_body E model smpl ctx cb st)) = n_generated st + 1"
  by (auto simp: loop_body_def Let_def split: prod.splits sum.splits)

lemma loop_body_generated:
  "generated (flow_state (loop_body E model smpl ctx cb st)) =
     generated st @ llama_token_to_piece E model (sampled E smpl ctx st)"
  by (auto simp: loop_body_def sampled_def Let_def split: prod.splits sum.splits)

lemma loop_body_sink:
  "sink (flow_state (loop_body E model smpl ctx cb st)) =
     sink st @ (if llama_token_to_piece E model (sampled E smpl ctx st) \<noteq> [] \<and> cb
                then [NewStringUTF (llama_token_to_piece E model (sampled E smpl ctx st))]
                else [])"
  by (auto simp: loop_body_def sampled_def Let_def split: prod.splits sum.splits)

lemma loop_body_n_alloc:
  "n_alloc (batch (flow_state (loop_body E model smpl ctx cb st))) = n_alloc (batch st)"
  by (auto simp: loop_body_def Let_def common_batch_add_def common_batch_clear_def
      split: prod.splits sum.splits if_splits)

lemma loop_body_eos:
  "sampled E smpl ctx st = llama_token_eos E model \<Longrightarrow>
   \<exists>st'. loop_body E model smpl ctx cb st = Break EosReached st' \<and> decoded st' = decoded st
      \<and> batch st' = batch st"
  by (auto simp: loop_body_def sampled_def Let_def split: prod.splits sum.splits)

lemma loop_body_batch:
  "loop_body E model smpl ctx cb st = Continue st' \<Longrightarrow>
   entries (batch st') = [\<lparr>token = sampled E smpl ctx st, pos = 0, seq_id = [0], logits = True\<rparr>]"
  by (auto simp: loop_body_def sampled_def Let_def common_batch_add_def common_batch_clear_def
      n_tokens_def split: prod.splits sum.splits if_splits)

lemma loop_body_DecodeFailed_iff:
  "(\<exists>st'. loop_body E model smpl ctx cb st = Break DecodeFailed st') \<longleftrightarrow>
   sampled E smpl ctx st \<noteq> llama_token_eos E model \<and> 0 < n_alloc (batch st) \<and>
   fst (llama_decode E
          (common_sampler_accept E
             (snd (common_sampler_sample E (lib st) smpl ctx (n_tokens (batch st) - 1)))
             smpl (sampled E smpl ctx st) True)
          ctx [\<lparr>token = sampled E smpl ctx st, pos = 0, seq_id = [0], logits = True\<rparr>]) \<noteq> 0"
  by (auto simp: loop_body_def sampled_def Let_def common_batch_add_def common_batch_clear_def
      n_tokens_def split: prod.splits sum.splits if_splits)

subsection \<open>The loop\<close>

lemma gen_loop_iterate:
  "iterate E model smpl ctx cb maxTokens k st0 = Some st \<Longrightarrow>
   gen_loop E model smpl ctx cb maxTokens st0 = gen_loop E model smpl ctx cb maxTokens st"
proof (induction k arbitrary: st0)
  case 0
  then show ?case by simp
next
  case (Suc k)
  then show ?case
    by (subst gen_loop.simps) (auto split: if_splits flow.splits)
qed

lemma iterate_n_generated:
  "iterate E model smpl ctx cb maxTokens k st0 = Some st \<Longrightarrow>
   n_generated st = n_generated st0 + int k"
proof (induction k arbitrary: st0)
  case 0
  then show ?case by simp
next
  case (Suc k)
  from Suc.prems obtain st1 where b: "loop_body E model smpl ctx cb st0 = Continue st1"
    and r: "iterate E model smpl ctx cb maxTokens k st1 = Some st"
    by (auto split: if_splits flow.splits)
  from loop_body_n_generated [of E model smpl ctx cb st0] b
  have "n_generated st1 = n_generated st0 + 1" by simp
  with Suc.IH [OF r] show ?case by simp
qed

lemma gen_loop_bounds:
  "gen_loop E model smpl ctx cb maxTokens st = (f, st') \<Longrightarrow>
   n_generated st \<le> n_generated st' \<and>
   (n_generated st \<le> maxTokens \<longrightarrow> n_generated st' \<le> maxTokens) \<and>
   int (length (sink st')) - n_generated st' \<le> int (length (sink st)) - n_generated st"
proof (induction E model smpl ctx cb maxTokens st rule: gen_loop.induct)
  case (1 E model smpl ctx cb maxTokens st)
  show ?case
  proof (cases "n_generated st < maxTokens")
    case False
    with "1.prems" show ?thesis by (simp add: gen_loop.simps)
  next
    case True
    let ?r = "loop_body E model smpl ctx cb st"
    have n: "n_generated (flow_state ?r) = n_generated st + 1"
      by (rule loop_body_n_generated)
    have s: "length (sink (flow_state ?r)) \<le> length (sink st) + 1"
      by (simp add: loop_body_sink)
    show ?thesis
    proof (cases ?r)
      case (Continue st1)
      with True "1.prems" have "gen_loop E model smpl ctx cb maxTokens st1 = (f, st')"
        by (simp add: gen_loop.simps)
      from "1.IH" [OF True Continue this] n s Continue True show ?thesis by simp
    next
      case (Break w st1)
      with True "1.prems" have "st' = st1" by (simp add: gen_loop.simps)
      with n s Break True show ?thesis by simp
    next
      case (Abort x st1)
      with True "1.prems" have "st' = st1" by (simp add: gen_loop.simps)
      with n s Abort True show ?thesis by simp
    qed
  qed
qed

subsection \<open>The prompt fill\<close>

text \<open>
  With room for the prompt, the prompt fill appends the entries the spec describes to
  whatever the batch already holds: on a batch that is empty it builds exactly those
  entries, on a batch that is not it leaves the old entries in front of them.
\<close>

lemma add_prompt_n_alloc:
  "add_prompt b ts i = Inr b' \<Longrightarrow> n_alloc b' = n_alloc b"
  by (induction b ts i rule: add_prompt.induct)
     (auto simp: common_batch_add_def split: if_splits sum.splits)

lemma prompt_fill_n_alloc:
  "prompt_fill b ts = Inr b' \<Longrightarrow> n_alloc b' = n_alloc b"
  by (auto simp: prompt_fill_def set_last_logits_def split: sum.splits if_splits dest: add_prompt_n_alloc)

lemma prompt_phase_entry:
  "prompt_phase E S contextPtr prompt = Inr st0 \<Longrightarrow>
   n_generated st0 = 0 \<and> generated st0 = [] \<and> sink st0 = [] \<and>
   n_alloc (batch st0) = n_alloc (g_batch S)"
  by (auto simp: prompt_phase_def Let_def split: if_splits sum.splits prod.splits
      dest: prompt_fill_n_alloc)

lemma add_prompt_eq:
  "length (entries b) + length ts \<le> n_alloc b \<Longrightarrow>
   add_prompt b ts i =
     Inr (b\<lparr>entries := entries b @
            map (\<lambda>j. \<lparr>token = ts ! j, pos = int i + int j, seq_id = [0], logits = False\<rparr>)
                [0..<length ts]\<rparr>)"
proof (induction ts arbitrary: b i)
  case Nil
  then show ?case by simp
next
  case (Cons t ts)
  let ?e = "\<lparr>token = t, pos = int i, seq_id = [0], logits = False\<rparr>"
  let ?b = "b\<lparr>entries := entries b @ [?e]\<rparr>"
  from Cons.prems have r: "length (entries b) < n_alloc b" by simp
  from Cons.prems have "length (entries ?b) + length ts \<le> n_alloc ?b" by simp
  from Cons.IH [OF this, of "Suc i"]
  have ih: "add_prompt ?b ts (Suc i) =
      Inr (b\<lparr>entries := entries b @ ?e #
            map (\<lambda>j. \<lparr>token = ts ! j, pos = int i + int (Suc j), seq_id = [0], logits = False\<rparr>)
                [0..<length ts]\<rparr>)"
    by (simp add: add.assoc add.left_commute)
  have m: "map (\<lambda>j. \<lparr>token = (t # ts) ! j, pos = int i + int j, seq_id = [0], logits = False\<rparr>)
             [0..<length (t # ts)] =
           ?e # map (\<lambda>j. \<lparr>token = ts ! j, pos = int i + int (Suc j), seq_id = [0], logits = False\<rparr>)
             [0..<length ts]"
    by (simp add: map_upt_Suc del: upt_Suc)
  have "add_prompt b (t # ts) i = add_prompt ?b ts (Suc i)"
    using r by (simp add: common_batch_add_def)
  with ih m show ?case by (simp only:)
qed

lemma flag_last_entry:
  assumes "ts \<noteq> []"
  shows "(map (\<lambda>j. \<lparr>token = ts ! j, pos = int j, seq_id = [0], logits = False\<rparr>) [0..<length ts])
           [length ts - 1 :=
              (map (\<lambda>j. \<lparr>token = ts ! j, pos = int j, seq_id = [0], logits = False\<rparr>)
                 [0..<length ts] ! (length ts - 1))\<lparr>logits := True\<rparr>]
         = prompt_entries ts"
proof (rule nth_equalityI)
  show "length ((map (\<lambda>j. \<lparr>token = ts ! j, pos = int j, seq_id = [0], logits = False\<rparr>)
           [0..<length ts])
           [length ts - 1 :=
              (map (\<lambda>j. \<lparr>token = ts ! j, pos = int j, seq_id = [0], logits = False\<rparr>)
                 [0..<length ts] ! (length ts - 1))\<lparr>logits := True\<rparr>])
        = length (prompt_entries ts)"
    by (simp add: prompt_entries_def)
next
  fix i
  assume "i < length ((map (\<lambda>j. \<lparr>token = ts ! j, pos = int j, seq_id = [0], logits = False\<rparr>)
           [0..<length ts])
           [length ts - 1 :=
              (map (\<lambda>j. \<lparr>token = ts ! j, pos = int j, seq_id = [0], logits = False\<rparr>)
                 [0..<length ts] ! (length ts - 1))\<lparr>logits := True\<rparr>])"
  then have i: "i < length ts" by simp
  then have "(i = length ts - 1) = (Suc i = length ts)" by arith
  with i show "(map (\<lambda>j. \<lparr>token = ts ! j, pos = int j, seq_id = [0], logits = False\<rparr>)
           [0..<length ts])
           [length ts - 1 :=
              (map (\<lambda>j. \<lparr>token = ts ! j, pos = int j, seq_id = [0], logits = False\<rparr>)
                 [0..<length ts] ! (length ts - 1))\<lparr>logits := True\<rparr>] ! i
        = prompt_entries ts ! i"
    by (auto simp: nth_list_update prompt_entries_def)
qed

lemma prompt_fill_appends:
  assumes "ts \<noteq> []" and "length (entries b) + length ts \<le> n_alloc b"
  shows "prompt_fill b ts = Inr (b\<lparr>entries := entries b @ prompt_entries ts\<rparr>)"
proof -
  let ?xs = "map (\<lambda>j. \<lparr>token = ts ! j, pos = int j, seq_id = [0], logits = False\<rparr>)
               [0..<length ts]"
  let ?n = "length (entries b) + (length ts - 1)"
  have a: "add_prompt b ts 0 = Inr (b\<lparr>entries := entries b @ ?xs\<rparr>)"
    using add_prompt_eq [OF assms(2), of 0] by simp
  have idx: "nat (n_tokens (b\<lparr>entries := entries b @ ?xs\<rparr>) - 1) = ?n"
    using assms(1) by (cases ts) (simp_all add: n_tokens_def)
  have pos: "\<not> n_tokens (b\<lparr>entries := entries b @ ?xs\<rparr>) - 1 < 0"
    using assms(1) by (cases ts) (simp_all add: n_tokens_def)
  have "(entries b @ ?xs)[?n := ((entries b @ ?xs) ! ?n)\<lparr>logits := True\<rparr>]
        = entries b @ ?xs[length ts - 1 := (?xs ! (length ts - 1))\<lparr>logits := True\<rparr>]"
    by (simp add: list_update_append nth_append)
  also have "\<dots> = entries b @ prompt_entries ts"
    by (simp only: flag_last_entry [OF assms(1)])
  finally have u: "(entries b @ ?xs)[?n := ((entries b @ ?xs) ! ?n)\<lparr>logits := True\<rparr>]
        = entries b @ prompt_entries ts" .
  have "set_last_logits (b\<lparr>entries := entries b @ ?xs\<rparr>)
        = Inr (b\<lparr>entries := entries b @ prompt_entries ts\<rparr>)"
    unfolding set_last_logits_def using pos idx u by simp
  with a show ?thesis by (simp add: prompt_fill_def)
qed

subsection \<open>Strings without a zero byte\<close>

text \<open>
  \<open>NewStringUTF\<close> is the identity on a string without a zero byte. If no piece of the
  vocabulary has one and the callback has the method, the callback receives no empty
  string and the concatenation of what it receives is the string returned.
\<close>

lemma NewStringUTF_nul_free: "CHR 0x00 \<notin> set s \<Longrightarrow> NewStringUTF s = s"
  by (auto simp: NewStringUTF_def takeWhile_eq_all_conv)

lemma gen_loop_concat:
  "gen_loop E model smpl ctx True maxTokens st = (f, st') \<Longrightarrow>
   \<forall>t. CHR 0x00 \<notin> set (llama_token_to_piece E model t) \<Longrightarrow>
   generated st = concat (sink st) \<Longrightarrow> CHR 0x00 \<notin> set (generated st) \<Longrightarrow>
   [] \<notin> set (sink st) \<Longrightarrow>
   generated st' = concat (sink st') \<and> CHR 0x00 \<notin> set (generated st') \<and>
   [] \<notin> set (sink st')"
proof (induction E model smpl ctx "True" maxTokens st rule: gen_loop.induct)
  case (1 E model smpl ctx maxTokens st)
  show ?case
  proof (cases "n_generated st < maxTokens")
    case False
    with "1.prems" show ?thesis by (simp add: gen_loop.simps)
  next
    case True
    let ?r = "loop_body E model smpl ctx True st"
    let ?p = "llama_token_to_piece E model (sampled E smpl ctx st)"
    have p: "CHR 0x00 \<notin> set ?p" using "1.prems"(2) by blast
    have g: "generated (flow_state ?r) = generated st @ ?p" by (rule loop_body_generated)
    have s: "sink (flow_state ?r) = sink st @ (if ?p \<noteq> [] then [?p] else [])"
      by (simp add: loop_body_sink NewStringUTF_nul_free [OF p])
    have i1: "generated (flow_state ?r) = concat (sink (flow_state ?r))"
      using g s "1.prems"(3) by simp
    have i2: "CHR 0x00 \<notin> set (generated (flow_state ?r))"
      using g p "1.prems"(4) by simp
    have i3: "[] \<notin> set (sink (flow_state ?r))"
      using s "1.prems"(5) by simp
    show ?thesis
    proof (cases ?r)
      case (Continue st1)
      with True "1.prems"(1) have "gen_loop E model smpl ctx True maxTokens st1 = (f, st')"
        by (simp add: gen_loop.simps)
      moreover from i1 Continue have "generated st1 = concat (sink st1)" by simp
      moreover from i2 Continue have "CHR 0x00 \<notin> set (generated st1)" by simp
      moreover from i3 Continue have "[] \<notin> set (sink st1)" by simp
      ultimately show ?thesis
        using "1.hyps" [OF True Continue _ "1.prems"(2)] by blast
    next
      case (Break w st1)
      with True "1.prems"(1) have "st' = st1" by (simp add: gen_loop.simps)
      with i1 i2 i3 Break show ?thesis by simp
    next
      case (Abort x st1)
      with True "1.prems"(1) have "st' = st1" by (simp add: gen_loop.simps)
      with i1 i2 i3 Abort show ?thesis by simp
    qed
  qed
qed

lemma delivered_concat_nul_free:
  assumes "\<forall>t. CHR 0x00 \<notin> set (llama_token_to_piece E (g_model S) t)"
    and "GetMethodID callback ''onToken''"
    and "ret (nativeGenerate E S contextPtr prompt maxTokens temperature grammar callback) = Inr txt"
  shows "txt = concat (delivered (nativeGenerate E S contextPtr prompt maxTokens temperature grammar callback))
         \<and> [] \<notin> set (delivered (nativeGenerate E S contextPtr prompt maxTokens temperature grammar callback))"
proof (cases "contextPtr = 0 \<or> g_model S = 0")
  case True
  with assms(3) show ?thesis by (auto simp: nativeGenerate_def NewStringUTF_def)
next
  case False
  show ?thesis
  proof (cases "prompt_phase E S contextPtr prompt")
    case (Inl r)
    then have "delivered r = [] \<and> (ret r = Inr txt \<longrightarrow> txt = [])"
      by (auto simp: prompt_phase_def Let_def NewStringUTF_def
          split: if_splits sum.splits prod.splits)
    with Inl False assms(3) show ?thesis by (simp add: nativeGenerate_def)
  next
    case (Inr st0)
    obtain f st' where g: "gen_loop E (g_model S) (g_sampler S) contextPtr True maxTokens st0
        = (f, st')"
      by (cases "gen_loop E (g_model S) (g_sampler S) contextPtr True maxTokens st0")
    from prompt_phase_entry [OF Inr] have z: "generated st0 = concat (sink st0)"
      "CHR 0x00 \<notin> set (generated st0)" "[] \<notin> set (sink st0)" by simp_all
    have "generated st' = concat (sink st') \<and> CHR 0x00 \<notin> set (generated st') \<and>
          [] \<notin> set (sink st')"
      by (rule gen_loop_concat [OF g assms(1) z])
    then have inv: "generated st' = concat (sink st')" "CHR 0x00 \<notin> set (generated st')"
      "[] \<notin> set (sink st')" by blast+
    from Inr False g assms(2)
    have r: "nativeGenerate E S contextPtr prompt maxTokens temperature grammar callback
        = finish S (f, st')"
      by (simp add: nativeGenerate_def)
    from assms(3) r have "txt = NewStringUTF (generated st')"
      by (auto simp: finish_def split: option.splits)
    also have "\<dots> = generated st'" by (rule NewStringUTF_nul_free [OF inv(2)])
    finally have "txt = concat (sink st')" using inv(1) by simp
    moreover have "delivered (finish S (f, st')) = sink st'" by (simp add: finish_def)
    ultimately show ?thesis using r inv(3) by simp
  qed
qed

subsection \<open>\<open>nativeFreeContext\<close>\<close>

text \<open>
  With a null argument, a null sampler and an empty batch the call changes nothing. With a
  live context, a sampler and a batch that holds entries it releases the three, in the
  order context, sampler, batch.
\<close>

lemma nativeFreeContext_idle:
  "g_context S = 0 \<Longrightarrow> g_sampler S = 0 \<Longrightarrow> entries (g_batch S) = [] \<Longrightarrow>
   nativeFreeContext S 0 = Inr S"
  by (simp add: nativeFreeContext_def n_tokens_def)

lemma nativeFreeContext_releases:
  "contextPtr \<noteq> 0 \<Longrightarrow> contextPtr \<in> set (live_ctx S) \<Longrightarrow> g_sampler S \<noteq> 0 \<Longrightarrow>
   entries (g_batch S) \<noteq> [] \<Longrightarrow>
   \<exists>S'. nativeFreeContext S contextPtr = Inr S' \<and>
        released S' = released S @ [Context contextPtr, Sampler (g_sampler S), BatchBuffer] \<and>
        g_context S' = 0 \<and> g_sampler S' = 0 \<and> g_batch S' = empty_batch \<and>
        contextPtr \<notin> set (live_ctx S')"
  by (simp add: nativeFreeContext_def n_tokens_def Let_def)

subsection \<open>Leaving the loop\<close>

text \<open>
  What the call returns when the loop is left by one of its two \<open>break\<close> statements
  after \<open>k\<close> iterations that fell through: the Java string made from \<open>generated\<close> as the
  last iteration left it, by \<open>NewStringUTF(generated.c_str())\<close>. That string has all the
  bytes of \<open>generated\<close> when none of them is zero, and only then. The first lemma is about
  the \<open>break\<close> after a failed \<open>llama_decode\<close>, the second states the same with the return
  code of \<open>llama_decode\<close> as the hypothesis, the third is about the \<open>break\<close> at
  end-of-sequence.
\<close>

lemma decode_break_ends_call:
  assumes "contextPtr \<noteq> 0" and "g_model S \<noteq> 0"
    and "prompt_phase E S contextPtr prompt = Inr st0"
    and "iterate E (g_model S) (g_sampler S) contextPtr (GetMethodID callback ''onToken'')
           maxTokens k st0 = Some st"
    and "int k < maxTokens"
    and "loop_body E (g_model S) (g_sampler S) contextPtr (GetMethodID callback ''onToken'') st
           = Break DecodeFailed st'"
  shows "ret (nativeGenerate E S contextPtr prompt maxTokens temperature grammar callback)
           = Inr (NewStringUTF (generated st')) \<and>
         (CHR 0x00 \<notin> set (generated st') \<longrightarrow>
            ret (nativeGenerate E S contextPtr prompt maxTokens temperature grammar callback)
              = Inr (generated st')) \<and>
         generated st' = generated st @
           llama_token_to_piece E (g_model S) (sampled E (g_sampler S) contextPtr st) \<and>
         steps (nativeGenerate E S contextPtr prompt maxTokens temperature grammar callback)
           = int k + 1 \<and>
         evaluated (nativeGenerate E S contextPtr prompt maxTokens temperature grammar callback)
           = decoded st' \<and>
         delivered (nativeGenerate E S contextPtr prompt maxTokens temperature grammar callback)
           = sink st'"
proof -
  let ?cb = "GetMethodID callback ''onToken''"
  let ?loop = "gen_loop E (g_model S) (g_sampler S) contextPtr ?cb maxTokens"
  have k: "n_generated st = int k"
    using iterate_n_generated [OF assms(4)] prompt_phase_entry [OF assms(3)] by simp
  have "?loop st0 = ?loop st" by (rule gen_loop_iterate [OF assms(4)])
  also have "\<dots> = (None, st')"
    using assms(5,6) k by (simp add: gen_loop.simps)
  finally have run: "nativeGenerate E S contextPtr prompt maxTokens temperature grammar callback
      = finish S (None, st')"
    using assms(1,2,3) by (simp add: nativeGenerate_def)
  have g: "generated st' = generated st @
      llama_token_to_piece E (g_model S) (sampled E (g_sampler S) contextPtr st)"
    using loop_body_generated [of E "g_model S" "g_sampler S" contextPtr ?cb st] assms(6) by simp
  have n: "n_generated st' = int k + 1"
    using loop_body_n_generated [of E "g_model S" "g_sampler S" contextPtr ?cb st] assms(6) k
    by simp
  show ?thesis using run g n by (simp add: finish_def NewStringUTF_nul_free)
qed

lemma decode_break_ends_call_example:
  "ret (nativeGenerate failing_engine (started failing_engine) 2 ''hi'' 5 (7 / 10) None
          sink_object) = Inr ''abc'' \<and>
   steps (nativeGenerate failing_engine (started failing_engine) 2 ''hi'' 5 (7 / 10) None
          sink_object) = 2 \<and>
   delivered (nativeGenerate failing_engine (started failing_engine) 2 ''hi'' 5 (7 / 10) None
          sink_object) = [''a'', ''bc'']"
proof -
  let ?E = failing_engine
  let ?S = "started failing_engine"
  let ?p = "[entry 1 0 False, entry 104 1 False, entry 105 2 True]"
  let ?st0 = "\<lparr>batch = \<lparr>n_alloc = 512, entries = ?p\<rparr>, lib = 1, generated = [],
               n_generated = 0, sink = [], decoded = [?p]\<rparr>"
  let ?st1 = "\<lparr>batch = \<lparr>n_alloc = 512, entries = [entry 10 0 True]\<rparr>, lib = 2,
               generated = ''a'', n_generated = 1, sink = [''a''],
               decoded = [?p, [entry 10 0 True]]\<rparr>"
  let ?st2 = "\<lparr>batch = \<lparr>n_alloc = 512, entries = [entry 11 0 True]\<rparr>, lib = 3,
               generated = ''abc'', n_generated = 2, sink = [''a'', ''bc''],
               decoded = [?p, [entry 10 0 True], [entry 11 0 True]]\<rparr>"
  have h1: "(2::nat) \<noteq> 0" by simp
  have h2: "g_model ?S \<noteq> 0" by code_simp
  have h3: "prompt_phase ?E ?S 2 ''hi'' = Inr ?st0" by code_simp
  have h4: "iterate ?E (g_model ?S) (g_sampler ?S) 2 (GetMethodID sink_object ''onToken'') 5 1 ?st0
              = Some ?st1" by code_simp
  have h5: "int 1 < 5" by simp
  have h6: "loop_body ?E (g_model ?S) (g_sampler ?S) 2 (GetMethodID sink_object ''onToken'') ?st1
              = Break DecodeFailed ?st2" by code_simp
  have e: "NewStringUTF ''abc'' = ''abc''" by code_simp
  from decode_break_ends_call [OF h1 h2 h3 h4 h5 h6, of "7 / 10" None] e
  show ?thesis by simp
qed

lemma decode_failure_ends_call:
  assumes "contextPtr \<noteq> 0" and "g_model S \<noteq> 0"
    and "prompt_phase E S contextPtr prompt = Inr st0"
    and "iterate E (g_model S) (g_sampler S) contextPtr (GetMethodID callback ''onToken'')
           maxTokens k st0 = Some st"
    and "int k < maxTokens"
    and "sampled E (g_sampler S) contextPtr st \<noteq> llama_token_eos E (g_model S)"
    and "0 < n_alloc (batch st)"
    and "fst (llama_decode E
           (common_sampler_accept E
              (snd (common_sampler_sample E (lib st) (g_sampler S) contextPtr
                      (n_tokens (batch st) - 1)))
              (g_sampler S) (sampled E (g_sampler S) contextPtr st) True)
           contextPtr
           [\<lparr>token = sampled E (g_sampler S) contextPtr st, pos = 0, seq_id = [0],
             logits = True\<rparr>]) \<noteq> 0"
  shows "ret (nativeGenerate E S contextPtr prompt maxTokens temperature grammar callback)
           = Inr (NewStringUTF (generated st @
               llama_token_to_piece E (g_model S) (sampled E (g_sampler S) contextPtr st))) \<and>
         steps (nativeGenerate E S contextPtr prompt maxTokens temperature grammar callback)
           = int k + 1"
proof -
  from assms(6,7,8) obtain st' where
    b: "loop_body E (g_model S) (g_sampler S) contextPtr (GetMethodID callback ''onToken'') st
          = Break DecodeFailed st'"
    using loop_body_DecodeFailed_iff
      [of E "g_model S" "g_sampler S" contextPtr "GetMethodID callback ''onToken''" st]
    by blast
  from decode_break_ends_call [OF assms(1,2,3,4,5) b, of temperature grammar]
  show ?thesis by simp
qed

lemma eos_ends_call:
  assumes "contextPtr \<noteq> 0" and "g_model S \<noteq> 0"
    and "prompt_phase E S contextPtr prompt = Inr st0"
    and "iterate E (g_model S) (g_sampler S) contextPtr (GetMethodID callback ''onToken'')
           maxTokens k st0 = Some st"
    and "int k < maxTokens"
    and "sampled E (g_sampler S) contextPtr st = llama_token_eos E (g_model S)"
  shows "ret (nativeGenerate E S contextPtr prompt maxTokens temperature grammar callback)
           = Inr (NewStringUTF (generated st @
                    llama_token_to_piece E (g_model S) (llama_token_eos E (g_model S)))) \<and>
         (CHR 0x00 \<notin> set (generated st @
                    llama_token_to_piece E (g_model S) (llama_token_eos E (g_model S))) \<longrightarrow>
            ret (nativeGenerate E S contextPtr prompt maxTokens temperature grammar callback)
              = Inr (generated st @
                    llama_token_to_piece E (g_model S) (llama_token_eos E (g_model S)))) \<and>
         steps (nativeGenerate E S contextPtr prompt maxTokens temperature grammar callback)
           = int k + 1 \<and>
         evaluated (nativeGenerate E S contextPtr prompt maxTokens temperature grammar callback)
           = decoded st \<and>
         delivered (nativeGenerate E S contextPtr prompt maxTokens temperature grammar callback)
           = sink st @
             (if llama_token_to_piece E (g_model S) (llama_token_eos E (g_model S)) \<noteq> [] \<and>
                 GetMethodID callback ''onToken''
              then [NewStringUTF (llama_token_to_piece E (g_model S) (llama_token_eos E (g_model S)))]
              else [])"
proof -
  let ?cb = "GetMethodID callback ''onToken''"
  let ?loop = "gen_loop E (g_model S) (g_sampler S) contextPtr ?cb maxTokens"
  obtain st' where b: "loop_body E (g_model S) (g_sampler S) contextPtr ?cb st = Break EosReached st'"
    and d: "decoded st' = decoded st"
    using loop_body_eos [OF assms(6), of ?cb] by blast
  have k: "n_generated st = int k"
    using iterate_n_generated [OF assms(4)] prompt_phase_entry [OF assms(3)] by simp
  have "?loop st0 = ?loop st" by (rule gen_loop_iterate [OF assms(4)])
  also have "\<dots> = (None, st')"
    using assms(5) b k by (simp add: gen_loop.simps)
  finally have run: "nativeGenerate E S contextPtr prompt maxTokens temperature grammar callback
      = finish S (None, st')"
    using assms(1,2,3) by (simp add: nativeGenerate_def)
  have g: "generated st' = generated st @
      llama_token_to_piece E (g_model S) (llama_token_eos E (g_model S))"
    using loop_body_generated [of E "g_model S" "g_sampler S" contextPtr ?cb st] b assms(6) by simp
  have n: "n_generated st' = int k + 1"
    using loop_body_n_generated [of E "g_model S" "g_sampler S" contextPtr ?cb st] b k by simp
  have s: "sink st' = sink st @
      (if llama_token_to_piece E (g_model S) (llama_token_eos E (g_model S)) \<noteq> [] \<and> ?cb
       then [NewStringUTF (llama_token_to_piece E (g_model S) (llama_token_eos E (g_model S)))]
       else [])"
    using loop_body_sink [of E "g_model S" "g_sampler S" contextPtr ?cb st] b assms(6) by simp
  show ?thesis using run g n s d by (simp add: finish_def NewStringUTF_nul_free)
qed

lemma eos_ends_call_example:
  "ret (nativeGenerate demo_engine (started demo_engine) 2 ''hi'' 5 (7 / 10) None sink_object)
     = Inr ''abc</s>'' \<and>
   steps (nativeGenerate demo_engine (started demo_engine) 2 ''hi'' 5 (7 / 10) None sink_object)
     = 3 \<and>
   delivered (nativeGenerate demo_engine (started demo_engine) 2 ''hi'' 5 (7 / 10) None
                sink_object)
     = [''a'', ''bc'', ''</s>'']"
proof -
  let ?E = demo_engine
  let ?S = "started demo_engine"
  let ?p = "[entry 1 0 False, entry 104 1 False, entry 105 2 True]"
  let ?st0 = "\<lparr>batch = \<lparr>n_alloc = 512, entries = ?p\<rparr>, lib = 1, generated = [],
               n_generated = 0, sink = [], decoded = [?p]\<rparr>"
  let ?st2 = "\<lparr>batch = \<lparr>n_alloc = 512, entries = [entry 11 0 True]\<rparr>, lib = 3,
               generated = ''abc'', n_generated = 2, sink = [''a'', ''bc''],
               decoded = [?p, [entry 10 0 True], [entry 11 0 True]]\<rparr>"
  have h1: "(2::nat) \<noteq> 0" by simp
  have h2: "g_model ?S \<noteq> 0" by code_simp
  have h3: "prompt_phase ?E ?S 2 ''hi'' = Inr ?st0" by code_simp
  have h4: "iterate ?E (g_model ?S) (g_sampler ?S) 2 (GetMethodID sink_object ''onToken'') 5 2 ?st0
              = Some ?st2" by code_simp
  have h5: "int 2 < 5" by simp
  have h6: "sampled ?E (g_sampler ?S) 2 ?st2 = llama_token_eos ?E (g_model ?S)" by code_simp
  have e1: "llama_token_to_piece ?E (g_model ?S) (llama_token_eos ?E (g_model ?S)) = ''</s>''"
    by code_simp
  have e2: "GetMethodID sink_object ''onToken''" by code_simp
  have e3: "NewStringUTF ''abc</s>'' = ''abc</s>''" by code_simp
  have e4: "NewStringUTF ''</s>'' = ''</s>''" by code_simp
  from eos_ends_call [OF h1 h2 h3 h4 h5 h6, of "7 / 10" None] e1 e2 e3 e4
  show ?thesis by simp
qed


section \<open>The claims\<close>

text \<open>
  Claim C1: in the generation loop, after each sampled token that is not end-of-sequence,
  the batch is cleared and the single sampled token is inserted at the next sequential
  position, one past the last evaluated position, with the logits flag set, before it is
  submitted for evaluation.

  The source passes \<open>g_batch.n_tokens\<close> as the position, read after \<open>common_batch_clear\<close>
  has made it zero. On the prompt \<open>hi\<close> (tokens 1, 104, 105 at positions 0, 1, 2) the two
  sampled tokens 10 and 11 are each submitted alone and with the flag set, but at
  position 0 and 0, where the claim has 3 and 4.
\<close>

theorem sampled_token_submitted_at_position_zero:
  "evaluated (nativeGenerate demo_engine (started demo_engine) 2 ''hi'' 5 (7 / 10) None sink_object)
     = [ [entry 1 0 False, entry 104 1 False, entry 105 2 True],
         [entry 10 0 True],
         [entry 11 0 True] ]"
  by code_simp

text \<open>
  Claim C2: for every call with tokenized prompt T, after the prompt fill the batch holds
  exactly the |T| entries (token T[i] at position i, sequence 0, the flag on the last
  only), also on a second or later call against the same session: no entry of an
  earlier call remains.

  \<open>nativeGenerate\<close> does not clear the batch before the prompt fill (the loop does,
  before each of its additions). A first call on the prompt \<open>hi\<close> leaves the entry of its
  last sampled token in the batch; the second call, on the prompt \<open>x\<close> with the two
  tokens 1 and 120, submits three entries, the old one in front and with its flag set.
\<close>

theorem second_call_keeps_stale_entry:
  "common_tokenize demo_engine 1 ''x'' True = [1, 120] \<and>
   hd (evaluated (nativeGenerate demo_engine
         (after (nativeGenerate demo_engine (started demo_engine) 2 ''hi'' 5 (7 / 10) None
                   sink_object))
         2 ''x'' 5 (7 / 10) None sink_object))
     = [entry 11 0 True, entry 1 0 False, entry 120 1 True]"
  by code_simp

text \<open>
  Claim C3: if the prompt tokenizes to the empty sequence, the call produces the empty
  result and returns at once, without any evaluation call and without touching the
  logits array of the batch.

  The source has no test for an empty token sequence. On a fresh session the statement
  \<open>g_batch.logits[g_batch.n_tokens - 1] = true\<close> writes at index \<open>-1\<close>. On a session that
  an earlier call has used, the statement sets the flag of the entry that call left, and
  \<open>llama_decode\<close> is asked to evaluate that entry.
\<close>

theorem empty_prompt_is_not_skipped:
  "common_tokenize no_bos_engine 1 [] True = [] \<and>
   ret (nativeGenerate no_bos_engine (started no_bos_engine) 2 [] 5 (7 / 10) None sink_object)
     = Inl OutOfBoundsWrite \<and>
   evaluated (nativeGenerate no_bos_engine
       (after (nativeGenerate no_bos_engine (started no_bos_engine) 2 ''hi'' 1 (7 / 10) None
                 sink_object))
       2 [] 5 (7 / 10) None sink_object)
     = [ [entry 10 0 True] ]"
  by code_simp

text \<open>
  Claim C4: when a grammar string is supplied, each token is sampled under that grammar:
  for some logits a call with the grammar selects another token than a call without.

  The source documents the argument (\<open>@param grammar Optional GBNF grammar\<close>) and never
  reads it, nor the global \<open>g_grammar\<close>: a call with a grammar and the same call without
  one return the same string, deliver the same strings to the callback, submit the same
  batches and leave the same state, for every library.
\<close>

theorem generate_ignores_grammar:
  "nativeGenerate E S contextPtr prompt maxTokens temperature (Some g) callback =
   nativeGenerate E S contextPtr prompt maxTokens temperature None callback"
  by (simp add: nativeGenerate_def)

text \<open>
  Claim C5: \<open>endSession\<close> never fails and is idempotent: two calls in a row with the same
  argument are both without effect, a call without an active session is without effect;
  it releases context, sampler and batch, in that order.

  \<open>nativeFreeContext\<close> guards the sampler and the batch by the globals and resets them,
  but releases the context its argument names whenever the argument is not null. After
  \<open>nativeInitContext\<close> has returned the context 2, the first call releases it; the
  second call with the same argument releases it again. The first call also shows the
  guard of the batch, \<open>n_tokens > 0\<close>: the batch of a session that has not generated is
  not released.
\<close>

theorem free_context_twice_releases_twice:
  "nativeFreeContext (started demo_engine) 2
     = Inr ((started demo_engine)\<lparr>g_context := 0, g_sampler := 0, live_ctx := [],
              released := [Context 2, Sampler 3]\<rparr>) \<and>
   nativeFreeContext ((started demo_engine)\<lparr>g_context := 0, g_sampler := 0, live_ctx := [],
              released := [Context 2, Sampler 3]\<rparr>) 2
     = Inl UseAfterFree"
  by code_simp

text \<open>
  Claim C6: if an evaluation fails inside the loop, the call stops and returns exactly the
  text accumulated so far; output already produced is never discarded.

  The call does stop at the failed evaluation, and it returns
  \<open>NewStringUTF(generated.c_str())\<close>, which is the accumulated text only up to its first
  zero byte, while \<open>generated\<close> was extended by length-counted pieces. With a byte-fallback
  vocabulary (token 3 is the byte \<open>0x00\<close>), the tokens 10 (\<open>a\<close>), 3 and 11 (\<open>bc\<close>) sampled
  and the evaluation after the third rejected: the loop has accumulated \<open>a\<close>, the zero
  byte, \<open>bc\<close>, the callback has received \<open>a\<close>, the empty string and \<open>bc\<close>, and the call
  returns \<open>a\<close>. The fragment \<open>bc\<close>, produced and delivered, is not in the result.
  (\<open>decode_failure_ends_call\<close> above: the call stops there and returns the Java string of
  \<open>generated\<close>; without a zero byte in it, that is all of it.)
\<close>

theorem decode_failure_after_zero_byte_drops_text:
  "fst (llama_decode zero_byte_failing_engine 3 2 [entry 11 0 True]) \<noteq> 0 \<and>
   (case prompt_phase zero_byte_failing_engine (started zero_byte_failing_engine) 2 ''hi'' of
      Inl r \<Rightarrow> []
    | Inr st0 \<Rightarrow> generated (snd (gen_loop zero_byte_failing_engine 1 3 2 True 5 st0)))
     = ''a'' @ [CHR 0x00] @ ''bc'' \<and>
   evaluated (nativeGenerate zero_byte_failing_engine (started zero_byte_failing_engine) 2 ''hi''
                5 (7 / 10) None sink_object)
     = [ [entry 1 0 False, entry 104 1 False, entry 105 2 True],
         [entry 10 0 True], [entry 3 0 True], [entry 11 0 True] ] \<and>
   steps (nativeGenerate zero_byte_failing_engine (started zero_byte_failing_engine) 2 ''hi''
                5 (7 / 10) None sink_object) = 3 \<and>
   delivered (nativeGenerate zero_byte_failing_engine (started zero_byte_failing_engine) 2 ''hi''
                5 (7 / 10) None sink_object)
     = [''a'', [], ''bc''] \<and>
   ret (nativeGenerate zero_byte_failing_engine (started zero_byte_failing_engine) 2 ''hi''
                5 (7 / 10) None sink_object)
     = Inr ''a''"
  by code_simp


text \<open>
  Claim C7: if the token sampled at step \<open>k < maxTokens\<close> is the end-of-sequence token,
  generation ends at step \<open>k\<close> and returns exactly the text accumulated through step \<open>k\<close>;
  the test comes after the fragment of step \<open>k\<close> has been appended and delivered, so the
  sink receives the end-of-sequence fragment when the tokenizer maps that token to a
  text that is not empty.

  The loop does end at that step, after the append and the call of the callback, but both
  the string returned and the string given to the callback stop at the first zero byte.
  With the tokens 10 (\<open>a\<close>), 3 (the byte \<open>0x00\<close>) and end-of-sequence (\<open></s>\<close>) sampled, the
  loop has accumulated \<open>a\<close>, the zero byte, \<open></s>\<close> and the call returns \<open>a\<close>. With a
  vocabulary that maps end-of-sequence to the two bytes \<open>0x00\<close>, \<open>x\<close>, a text that is not
  empty, the callback receives the empty string for it.
  (\<open>eos_ends_call\<close> above: the call ends at that step with the Java string of \<open>generated\<close>,
  all of it when no byte is zero, and the callback has received the Java string of the
  piece.)
\<close>

theorem eos_after_zero_byte_drops_text:
  "(case prompt_phase zero_byte_eos_engine (started zero_byte_eos_engine) 2 ''hi'' of
      Inl r \<Rightarrow> []
    | Inr st0 \<Rightarrow> generated (snd (gen_loop zero_byte_eos_engine 1 3 2 True 5 st0)))
     = ''a'' @ [CHR 0x00] @ ''</s>'' \<and>
   steps (nativeGenerate zero_byte_eos_engine (started zero_byte_eos_engine) 2 ''hi''
            5 (7 / 10) None sink_object) = 3 \<and>
   delivered (nativeGenerate zero_byte_eos_engine (started zero_byte_eos_engine) 2 ''hi''
            5 (7 / 10) None sink_object)
     = [''a'', [], ''</s>''] \<and>
   ret (nativeGenerate zero_byte_eos_engine (started zero_byte_eos_engine) 2 ''hi''
            5 (7 / 10) None sink_object)
     = Inr ''a'' \<and>
   llama_token_to_piece zero_eos_piece_engine 1 (llama_token_eos zero_eos_piece_engine 1)
     = [CHR 0x00, CHR ''x''] \<and>
   delivered (nativeGenerate zero_eos_piece_engine (started zero_eos_piece_engine) 2 ''hi''
            5 (7 / 10) None sink_object)
     = [''a'', []]"
  by code_simp


text \<open>
  Claim C8: fragments are delivered to the sink in the order of the generation steps,
  exactly the fragments that are not empty are delivered, and the concatenation of the
  delivered fragments is the text the call returns, byte for byte.

  The source appends the \<open>n_chars\<close> bytes of the piece to \<open>generated\<close>, but gives the
  callback \<open>NewStringUTF(token_str)\<close> and returns \<open>NewStringUTF(generated.c_str())\<close>, which
  both stop at the first zero byte. With a byte-fallback vocabulary, where token 3 is the
  byte \<open>0x00\<close>, and the tokens 3, 11 (\<open>4\<close>) and end-of-sequence sampled: the callback
  receives the empty string and then \<open>4\<close>, and the call returns the empty string.
  (\<open>delivered_concat_nul_free\<close> above: without zero bytes in the pieces, and with the
  method present, the claim holds.)
\<close>

theorem zero_byte_piece_splits_sink_and_result:
  "delivered (nativeGenerate byte_engine (started byte_engine) 2 [] 5 (7 / 10) None sink_object)
     = [ [], ''4'' ] \<and>
   ret (nativeGenerate byte_engine (started byte_engine) 2 [] 5 (7 / 10) None sink_object)
     = Inr []"
  by code_simp

text \<open>
  Claim C9: for every \<open>maxTokens = M \<ge> 0\<close> the generation loop runs at most \<open>M\<close>
  iterations, hence terminates, and at most \<open>M\<close> fragments are delivered to the sink.

  \<open>gen_loop\<close> is a total function: its termination was proved with the measure
  \<open>maxTokens - n_generated\<close>, for every library and every state. \<open>steps\<close> is the number of
  iterations run; the callback is called at most once in each.
\<close>

theorem generation_loop_bounded:
  "0 \<le> maxTokens \<Longrightarrow>
   0 \<le> steps (nativeGenerate E S contextPtr prompt maxTokens temperature grammar callback) \<and>
   steps (nativeGenerate E S contextPtr prompt maxTokens temperature grammar callback) \<le> maxTokens \<and>
   int (length (delivered (nativeGenerate E S contextPtr prompt maxTokens temperature grammar callback)))
     \<le> steps (nativeGenerate E S contextPtr prompt maxTokens temperature grammar callback)"
proof -
  assume M: "0 \<le> maxTokens"
  show ?thesis
  proof (cases "contextPtr = 0 \<or> g_model S = 0")
    case True
    then show ?thesis using M by (auto simp: nativeGenerate_def)
  next
    case False
    show ?thesis
    proof (cases "prompt_phase E S contextPtr prompt")
      case (Inl r)
      then have "steps r = 0 \<and> delivered r = []"
        by (auto simp: prompt_phase_def Let_def split: if_splits sum.splits prod.splits)
      with Inl False M show ?thesis by (simp add: nativeGenerate_def)
    next
      case (Inr st0)
      obtain f st' where g: "gen_loop E (g_model S) (g_sampler S) contextPtr
          (GetMethodID callback ''onToken'') maxTokens st0 = (f, st')"
        by (cases "gen_loop E (g_model S) (g_sampler S) contextPtr
          (GetMethodID callback ''onToken'') maxTokens st0")
      from prompt_phase_entry [OF Inr] have z: "n_generated st0 = 0" "sink st0 = []" by simp_all
      from gen_loop_bounds [OF g] z M
      have "0 \<le> n_generated st' \<and> n_generated st' \<le> maxTokens \<and>
            int (length (sink st')) \<le> n_generated st'" by simp
      with Inr False g show ?thesis by (simp add: nativeGenerate_def finish_def)
    qed
  qed
qed

theorem generation_loop_bounded_witness:
  "(0::int) \<le> 2 \<and>
   steps (nativeGenerate demo_engine (started demo_engine) 2 ''hi'' 2 (7 / 10) None sink_object)
     \<le> 2 \<and>
   delivered (nativeGenerate demo_engine (started demo_engine) 2 ''hi'' 2 (7 / 10) None
                sink_object)
     = [''a'', ''bc'']"
proof -
  have h: "(0::int) \<le> 2" by simp
  have d: "delivered (nativeGenerate demo_engine (started demo_engine) 2 ''hi'' 2 (7 / 10) None
                sink_object) = [''a'', ''bc'']"
    by code_simp
  from generation_loop_bounded [OF h, of demo_engine "started demo_engine" 2 "''hi''" "7 / 10"
         None sink_object] d
  show ?thesis by simp
qed

text \<open>
  Claim C10: two calls that differ only in the temperature argument return the same text
  and deliver the same fragments: \<open>nativeGenerate\<close> never reads its temperature argument
  (the sampler was configured by \<open>nativeInitContext\<close>).

  The two calls agree in all they leave behind: the returned string, the strings
  delivered, the batches submitted, the number of iterations and the state.
\<close>

theorem generate_ignores_temperature:
  "nativeGenerate E S contextPtr prompt maxTokens t1 grammar callback =
   nativeGenerate E S contextPtr prompt maxTokens t2 grammar callback"
  by (simp add: nativeGenerate_def)

end
